theory Spec2Isabelle
  imports Complex_Main
begin

section \<open>Numbers, errors and results\<close>

text \<open>
  The routines of \<^verbatim>\<open>utils.py\<close> work on Python numbers. The specification speaks of
  real numbers throughout, and the embedding follows it: a number is a \<^typ>\<open>real\<close>, so
  \<open>+\<close>, \<open>-\<close>, \<open>*\<close> and the comparisons are exact (as they are in Python for integers and
  fractions; rounding of binary floating point is outside this development).
  The counters \<^verbatim>\<open>iteration\<close>, \<^verbatim>\<open>max_iterations\<close> and \<^verbatim>\<open>number_of_roots\<close> are Python
  integers, hence \<^typ>\<open>int\<close>. A target function is a pure, total function on the reals.

  Python's \<^verbatim>\<open>a / b\<close> raises \<^verbatim>\<open>ZeroDivisionError\<close> for \<^verbatim>\<open>b == 0\<close>; HOL's \<open>a / 0\<close> is \<open>0\<close>.
  Every division of the source whose divisor can be zero therefore goes through
  \<open>py_div\<close>, and a routine that contains one returns \<open>error + real option\<close>:
  \<open>Inl ZeroDivisionError\<close> for the raise, \<open>Inr None\<close> for Python's \<^verbatim>\<open>None\<close>
  (no root found) and \<open>Inr (Some r)\<close> for a returned estimate.
\<close>

datatype error = ZeroDivisionError

definition py_div :: "real \<Rightarrow> real \<Rightarrow> error + real" where
  "py_div a b = (if b = 0 then Inl ZeroDivisionError else Inr (a / b))"


section \<open>The bracketing scanner\<close>

text \<open>
  \<^verbatim>\<open>incremental_search\<close> is a \<^verbatim>\<open>while lb <= ub\<close> loop over the state
  \<^verbatim>\<open>(lb, number_of_roots, intervals)\<close>. Nothing in the code bounds the number of passes,
  so the loop is a partial function: \<open>None\<close> means that the call does not return.
  An interval is the two-element Python list \<^verbatim>\<open>[a, b]\<close>.
\<close>

partial_function (option) incremental_search_loop ::
  "(real \<Rightarrow> real) \<Rightarrow> real \<Rightarrow> real \<Rightarrow> real \<Rightarrow> int \<Rightarrow> real list list
    \<Rightarrow> (int \<times> real list list) option" where
  "incremental_search_loop f ub increment_length lb number_of_roots intervals =
    (if lb \<le> ub then
       let (number_of_roots, intervals) =
             (if f lb = 0
              then (number_of_roots + 1,
                    intervals @ [[lb - increment_length, lb + increment_length]])
              else (number_of_roots, intervals));
           (number_of_roots, intervals) =
             (if f lb * f (lb + increment_length) < 0
              then (number_of_roots + 1, intervals @ [[lb, lb + increment_length]])
              else (number_of_roots, intervals))
       in incremental_search_loop f ub increment_length (lb + increment_length)
            number_of_roots intervals
     else Some (number_of_roots, intervals))"

definition incremental_search ::
  "(real \<Rightarrow> real) \<Rightarrow> real \<Rightarrow> real \<Rightarrow> real \<Rightarrow> (int \<times> real list list) option" where
  "incremental_search f lb ub increment_length =
     incremental_search_loop f ub increment_length lb 0 []"


section \<open>The five refiners\<close>

text \<open>
  Each refiner is a loop that counts its passes in \<^verbatim>\<open>iteration\<close> and leaves with
  \<^verbatim>\<open>break\<close> once \<^verbatim>\<open>iteration > max_iterations\<close>, so each is a total function whose
  measure is \<open>max_iterations - iteration\<close>. The loop functions take the loop state
  as their last arguments; the Python chain \<^verbatim>\<open>-threshold < y < threshold\<close> is the
  conjunction of its two comparisons.
\<close>

subsection \<open>Bisection\<close>

text \<open>
  The only division is by the literal \<open>2\<close>, so bisection cannot raise. The loop
  returns, next to the value of the \<^verbatim>\<open>return\<close>, the final value of the local counter
  \<^verbatim>\<open>iteration\<close>: the number of midpoints that were computed.
\<close>

function bisection_loop ::
  "(real \<Rightarrow> real) \<Rightarrow> real \<Rightarrow> int \<Rightarrow> real \<Rightarrow> real \<Rightarrow> int \<Rightarrow> int \<times> real option" where
  "bisection_loop f threshold max_iterations lb ub iteration =
    (if lb \<le> ub then
       let iteration = iteration + 1;
           mid = (lb + ub) / 2
       in if - threshold < f mid \<and> f mid < threshold then (iteration, Some mid)
          else
            let (lb, ub) = (if f lb * f mid < 0 then (lb, mid)
                            else if f ub * f mid < 0 then (mid, ub)
                            else (lb, ub))
            in if iteration > max_iterations then (iteration, None)
               else bisection_loop f threshold max_iterations lb ub iteration
     else (iteration, None))"
  by pat_completeness auto
termination
  by (relation "measure (\<lambda>(f, threshold, max_iterations, lb, ub, iteration).
        nat (max_iterations - iteration))") auto

declare bisection_loop.simps [simp del]

definition bisection :: "(real \<Rightarrow> real) \<Rightarrow> real \<Rightarrow> real \<Rightarrow> real \<Rightarrow> int \<Rightarrow> real option" where
  "bisection f lb ub threshold max_iterations =
     snd (bisection_loop f threshold max_iterations lb ub 0)"

subsection \<open>False position\<close>

function false_position_loop ::
  "(real \<Rightarrow> real) \<Rightarrow> real \<Rightarrow> int \<Rightarrow> real \<Rightarrow> real \<Rightarrow> int \<Rightarrow> error + real option" where
  "false_position_loop f threshold max_iterations lb ub iteration =
    (if lb \<le> ub then
       let iteration = iteration + 1
       in case py_div (f ub * (lb - ub)) (f lb - f ub) of
            Inl e \<Rightarrow> Inl e
          | Inr q \<Rightarrow>
              let x_r = ub - q
              in if - threshold < f x_r \<and> f x_r < threshold then Inr (Some x_r)
                 else
                   let (lb, ub) = (if f lb * f x_r < 0 then (lb, x_r)
                                   else if f ub * f x_r < 0 then (x_r, ub)
                                   else (lb, ub))
                   in if iteration > max_iterations then Inr None
                      else false_position_loop f threshold max_iterations lb ub iteration
     else Inr None)"
  by pat_completeness auto
termination
  by (relation "measure (\<lambda>(f, threshold, max_iterations, lb, ub, iteration).
        nat (max_iterations - iteration))") auto

declare false_position_loop.simps [simp del]

definition false_position ::
  "(real \<Rightarrow> real) \<Rightarrow> real \<Rightarrow> real \<Rightarrow> real \<Rightarrow> int \<Rightarrow> error + real option" where
  "false_position f lb ub threshold max_iterations =
     false_position_loop f threshold max_iterations lb ub 0"

subsection \<open>Newton-Raphson\<close>

function newton_raphson_loop ::
  "(real \<Rightarrow> real) \<Rightarrow> (real \<Rightarrow> real) \<Rightarrow> real \<Rightarrow> int \<Rightarrow> real \<Rightarrow> int \<Rightarrow> error + real option" where
  "newton_raphson_loop f f_der threshold max_iterations x iteration =
    (let iteration = iteration + 1
     in case py_div (f x) (f_der x) of
          Inl e \<Rightarrow> Inl e
        | Inr q \<Rightarrow>
            let x = x - q
            in if - threshold < f x \<and> f x < threshold then Inr (Some x)
               else if iteration > max_iterations then Inr None
               else newton_raphson_loop f f_der threshold max_iterations x iteration)"
  by pat_completeness auto
termination
  by (relation "measure (\<lambda>(f, f_der, threshold, max_iterations, x, iteration).
        nat (max_iterations - iteration))") auto

declare newton_raphson_loop.simps [simp del]

definition newton_raphson ::
  "(real \<Rightarrow> real) \<Rightarrow> (real \<Rightarrow> real) \<Rightarrow> real \<Rightarrow> real \<Rightarrow> int \<Rightarrow> error + real option" where
  "newton_raphson f f_der x0 threshold max_iterations =
     newton_raphson_loop f f_der threshold max_iterations x0 0"

subsection \<open>Secant\<close>




subsection \<open>Modified secant\<close>

text \<open>The loop state is the counter alone: \<^verbatim>\<open>x0\<close> and \<^verbatim>\<open>dx\<close> are never assigned.\<close>

function modified_secant_loop ::
  "(real \<Rightarrow> real) \<Rightarrow> real \<Rightarrow> real \<Rightarrow> real \<Rightarrow> int \<Rightarrow> int \<Rightarrow> error + real option" where
  "modified_secant_loop f x0 dx threshold max_iterations iteration =
    (let iteration = iteration + 1
     in case py_div (f x0 * dx) (f (x0 + dx) - f x0) of
          Inl e \<Rightarrow> Inl e
        | Inr q \<Rightarrow>
            let x = x0 - q
            in if - threshold < f x \<and> f x < threshold then Inr (Some x)
               else if iteration > max_iterations then Inr None
               else modified_secant_loop f x0 dx threshold max_iterations iteration)"
  by pat_completeness auto
termination
  by (relation "measure (\<lambda>(f, x0, dx, threshold, max_iterations, iteration).
        nat (max_iterations - iteration))") auto

declare modified_secant_loop.simps [simp del]

definition modified_secant ::
  "(real \<Rightarrow> real) \<Rightarrow> real \<Rightarrow> real \<Rightarrow> real \<Rightarrow> int \<Rightarrow> error + real option" where
  "modified_secant f x0 dx threshold max_iterations =
     modified_secant_loop f x0 dx threshold max_iterations 0"


section \<open>Target functions used in the concrete instances\<close>

text \<open>
  \<^verbatim>\<open>main.py\<close> runs every routine on \<^verbatim>\<open>f = lambda x: x**2 - 7*x + 10\<close> (roots \<open>2\<close> and
  \<open>5\<close>) and its derivative \<^verbatim>\<open>f_der = lambda x: 2*x - 7\<close>. The concrete instances below
  use these two functions wherever they can. \<open>lifted_square\<close> is a parabola whose
  vertex lies above the axis by \<open>1/4096\<close>, less than the default threshold \<^verbatim>\<open>1e-3\<close>, and
  \<open>lifted_square_der\<close> is its derivative (\<^verbatim>\<open>lambda x: x**2 + 1/4096\<close> and
  \<^verbatim>\<open>lambda x: 2*x\<close>; the numbers are binary fractions, so Python's floats compute
  on them exactly as the reals do).
\<close>

definition main_f :: "real \<Rightarrow> real" where
  "main_f x = x ^ 2 - 7 * x + 10"

definition main_f_der :: "real \<Rightarrow> real" where
  "main_f_der x = 2 * x - 7"

definition lifted_square :: "real \<Rightarrow> real" where
  "lifted_square x = x ^ 2 + 1 / 4096"

definition lifted_square_der :: "real \<Rightarrow> real" where
  "lifted_square_der x = 2 * x"


section \<open>What a pass appends, and which states a call reaches\<close>

text \<open>
  \<open>scan_hit f increment_length x iv\<close>: the interval \<open>iv\<close> is one that the body of the
  scanner's loop appends when the position \<^verbatim>\<open>lb\<close> is \<open>x\<close>: the bracket
  \<^verbatim>\<open>[x - increment_length, x + increment_length]\<close> of the first \<^verbatim>\<open>if\<close> (an exact zero at
  \<open>x\<close>) or the bracket \<^verbatim>\<open>[x, x + increment_length]\<close> of the second (a strict sign change).
\<close>

definition scan_hit :: "(real \<Rightarrow> real) \<Rightarrow> real \<Rightarrow> real \<Rightarrow> real list \<Rightarrow> bool" where
  "scan_hit f increment_length x iv \<longleftrightarrow>
     (f x = 0 \<and> iv = [x - increment_length, x + increment_length])
     \<or> (f x * f (x + increment_length) < 0 \<and> iv = [x, x + increment_length])"

text \<open>
  The states in which a call of \<^verbatim>\<open>false_position\<close> stands at the head of its loop:
  the initial bracket with the counter at \<open>0\<close>, and the state that a pass leaves behind
  when it neither raises nor returns nor breaks. The pass itself runs only if
  \<open>lb \<le> ub\<close> holds in that state.
\<close>

inductive false_position_reaches ::
  "(real \<Rightarrow> real) \<Rightarrow> real \<Rightarrow> int \<Rightarrow> real \<Rightarrow> real \<Rightarrow> real \<Rightarrow> real \<Rightarrow> int \<Rightarrow> bool"
  for f threshold max_iterations lb0 ub0 where
  start: "false_position_reaches f threshold max_iterations lb0 ub0 lb0 ub0 0"
| pass: "false_position_reaches f threshold max_iterations lb0 ub0 lb ub iteration \<Longrightarrow>
    lb \<le> ub \<Longrightarrow>
    f lb - f ub \<noteq> 0 \<Longrightarrow>
    x_r = ub - f ub * (lb - ub) / (f lb - f ub) \<Longrightarrow>
    \<not> (- threshold < f x_r \<and> f x_r < threshold) \<Longrightarrow>
    (lb', ub') = (if f lb * f x_r < 0 then (lb, x_r)
                  else if f ub * f x_r < 0 then (x_r, ub)
                  else (lb, ub)) \<Longrightarrow>
    \<not> iteration + 1 > max_iterations \<Longrightarrow>
    false_position_reaches f threshold max_iterations lb0 ub0 lb' ub' (iteration + 1)"

text \<open>
  The same for \<^verbatim>\<open>newton_raphson\<close>: the iterates from which a pass starts, that is, the
  values of \<^verbatim>\<open>x\<close> at which the code evaluates \<^verbatim>\<open>f(x)/f_der(x)\<close>.
\<close>

inductive newton_raphson_reaches ::
  "(real \<Rightarrow> real) \<Rightarrow> (real \<Rightarrow> real) \<Rightarrow> real \<Rightarrow> int \<Rightarrow> real \<Rightarrow> real \<Rightarrow> int \<Rightarrow> bool"
  for f f_der threshold max_iterations x0 where
  start: "newton_raphson_reaches f f_der threshold max_iterations x0 x0 0"
| pass: "newton_raphson_reaches f f_der threshold max_iterations x0 x iteration \<Longrightarrow>
    f_der x \<noteq> 0 \<Longrightarrow>
    x' = x - f x / f_der x \<Longrightarrow>
    \<not> (- threshold < f x' \<and> f x' < threshold) \<Longrightarrow>
    \<not> iteration + 1 > max_iterations \<Longrightarrow>
    newton_raphson_reaches f f_der threshold max_iterations x0 x' (iteration + 1)"


section \<open>One pass of each refiner\<close>

text \<open>
  The recursion equations with the \<open>let\<close>s and the division unfolded: what one pass of
  each loop does to its state. They are the only facts about the loops that the proofs
  below use.
\<close>

lemma bisection_loop_step:
  "bisection_loop f threshold max_iterations lb ub iteration =
    (if lb \<le> ub then
       if - threshold < f ((lb + ub) / 2) \<and> f ((lb + ub) / 2) < threshold
       then (iteration + 1, Some ((lb + ub) / 2))
       else if iteration + 1 > max_iterations then (iteration + 1, None)
       else if f lb * f ((lb + ub) / 2) < 0
         then bisection_loop f threshold max_iterations lb ((lb + ub) / 2) (iteration + 1)
       else if f ub * f ((lb + ub) / 2) < 0
         then bisection_loop f threshold max_iterations ((lb + ub) / 2) ub (iteration + 1)
       else bisection_loop f threshold max_iterations lb ub (iteration + 1)
     else (iteration, None))"
  by (subst bisection_loop.simps) (simp add: Let_def)

lemma false_position_loop_step:
  "false_position_loop f threshold max_iterations lb ub iteration =
    (if lb \<le> ub then
       if f lb - f ub = 0 then Inl ZeroDivisionError
       else if - threshold < f (ub - f ub * (lb - ub) / (f lb - f ub))
             \<and> f (ub - f ub * (lb - ub) / (f lb - f ub)) < threshold
       then Inr (Some (ub - f ub * (lb - ub) / (f lb - f ub)))
       else if iteration + 1 > max_iterations then Inr None
       else if f lb * f (ub - f ub * (lb - ub) / (f lb - f ub)) < 0
         then false_position_loop f threshold max_iterations
                lb (ub - f ub * (lb - ub) / (f lb - f ub)) (iteration + 1)
       else if f ub * f (ub - f ub * (lb - ub) / (f lb - f ub)) < 0
         then false_position_loop f threshold max_iterations
                (ub - f ub * (lb - ub) / (f lb - f ub)) ub (iteration + 1)
       else false_position_loop f threshold max_iterations lb ub (iteration + 1)
     else Inr None)"
  by (subst false_position_loop.simps) (simp add: Let_def py_div_def)

lemma newton_raphson_loop_step:
  "newton_raphson_loop f f_der threshold max_iterations x iteration =
    (if f_der x = 0 then Inl ZeroDivisionError
     else if - threshold < f (x - f x / f_der x) \<and> f (x - f x / f_der x) < threshold
     then Inr (Some (x - f x / f_der x))
     else if iteration + 1 > max_iterations then Inr None
     else newton_raphson_loop f f_der threshold max_iterations
            (x - f x / f_der x) (iteration + 1))"
  by (subst newton_raphson_loop.simps) (simp add: Let_def py_div_def)


lemma modified_secant_loop_step:
  "modified_secant_loop f x0 dx threshold max_iterations iteration =
    (if f (x0 + dx) - f x0 = 0 then Inl ZeroDivisionError
     else if - threshold < f (x0 - f x0 * dx / (f (x0 + dx) - f x0))
           \<and> f (x0 - f x0 * dx / (f (x0 + dx) - f x0)) < threshold
     then Inr (Some (x0 - f x0 * dx / (f (x0 + dx) - f x0)))
     else if iteration + 1 > max_iterations then Inr None
     else modified_secant_loop f x0 dx threshold max_iterations (iteration + 1))"
  by (subst modified_secant_loop.simps) (simp add: Let_def py_div_def)


section \<open>What a refiner can return\<close>





text \<open>
  The modified secant loop never changes \<^verbatim>\<open>x0\<close> or \<^verbatim>\<open>dx\<close>, so every pass repeats the
  first: whatever the counter and the cap are, the loop is one evaluation.
\<close>

lemma modified_secant_loop_single_shot:
  "modified_secant_loop f x0 dx threshold max_iterations iteration =
    (if f (x0 + dx) - f x0 = 0 then Inl ZeroDivisionError
     else if \<bar>f (x0 - f x0 * dx / (f (x0 + dx) - f x0))\<bar> < threshold
     then Inr (Some (x0 - f x0 * dx / (f (x0 + dx) - f x0)))
     else Inr None)"
proof (induction "nat (max_iterations - iteration)" arbitrary: iteration rule: less_induct)
  case less
  have IH: "modified_secant_loop f x0 dx threshold max_iterations (iteration + 1) =
    (if f (x0 + dx) - f x0 = 0 then Inl ZeroDivisionError
     else if \<bar>f (x0 - f x0 * dx / (f (x0 + dx) - f x0))\<bar> < threshold
     then Inr (Some (x0 - f x0 * dx / (f (x0 + dx) - f x0)))
     else Inr None)"
    if "\<not> iteration + 1 > max_iterations"
    using that less.hyps [of "iteration + 1"] by simp
  show ?case
    using IH
    by (simp add: modified_secant_loop_step [of f x0 dx threshold max_iterations iteration]
          abs_less_iff)
qed





text \<open>
  Claim C3 (as stated): for every \<open>f\<close>, \<open>x0\<close>, \<open>dx\<close> and threshold, modified secant
  returns the single estimate \<open>x0 - f x0 * dx / (f (x0 + dx) - f x0)\<close> when it passes the
  convergence test and not-found otherwise. With the demonstration's function,
  \<open>f 3 = f 4 = -2\<close>: the divisor is zero and the call fails instead.
\<close>

theorem C3_counterexample:
  "modified_secant main_f 3 1 (1 / 1000) 100 = Inl ZeroDivisionError"
  by (simp add: modified_secant_def modified_secant_loop_single_shot main_f_def)

text \<open>
  Claim C3 (amended): modified secant makes no progress across iterations. From every
  value of the counter the loop gives the result of one evaluation: it fails with
  \<^verbatim>\<open>ZeroDivisionError\<close> when \<open>f (x0 + dx) = f x0\<close>; otherwise it returns the estimate
  \<open>x = x0 - f x0 * dx / (f (x0 + dx) - f x0)\<close> when \<open>\<bar>f x\<bar> < threshold\<close> and not-found
  when not. The result of a call does not depend on \<^verbatim>\<open>max_iterations\<close>.
\<close>

theorem C3_modified_secant_single_shot:
  "modified_secant_loop f x0 dx threshold max_iterations iteration =
     (if f (x0 + dx) - f x0 = 0 then Inl ZeroDivisionError
      else if \<bar>f (x0 - f x0 * dx / (f (x0 + dx) - f x0))\<bar> < threshold
      then Inr (Some (x0 - f x0 * dx / (f (x0 + dx) - f x0)))
      else Inr None)
   \<and> modified_secant f x0 dx threshold max_iterations =
       modified_secant_loop f x0 dx threshold max_iterations iteration
   \<and> modified_secant f x0 dx threshold max_iterations =
       modified_secant f x0 dx threshold max_iterations'"
  by (simp add: modified_secant_def modified_secant_loop_single_shot)


section \<open>The scanner: termination and the intervals it returns\<close>

text \<open>One pass of the scanner's loop, with both \<^verbatim>\<open>if\<close> statements unfolded.\<close>

lemma incremental_search_loop_step:
  "incremental_search_loop f ub increment_length lb number_of_roots intervals =
    (if lb \<le> ub then
       incremental_search_loop f ub increment_length (lb + increment_length)
         (number_of_roots + (if f lb = 0 then 1 else 0)
            + (if f lb * f (lb + increment_length) < 0 then 1 else 0))
         (intervals
            @ (if f lb = 0 then [[lb - increment_length, lb + increment_length]] else [])
            @ (if f lb * f (lb + increment_length) < 0 then [[lb, lb + increment_length]]
               else []))
     else Some (number_of_roots, intervals))"
  by (subst incremental_search_loop.simps) (simp add: Let_def)

text \<open>
  The demonstration's scan: two brackets, one around each root (the specification's
  test of the scanner, in exact arithmetic).
\<close>

lemma demonstration_scan:
  "incremental_search main_f (- 4) 8 (4 / 5) = Some (2, [[8 / 5, 12 / 5], [24 / 5, 28 / 5]])"
  by (simp add: incremental_search_def incremental_search_loop_step main_f_def
        power2_eq_square)






text \<open>
  Every interval of the list comes from a pass at a scanned position
  \<open>lb0 + k * increment_length \<le> ub\<close>. The invariant is stated for the accumulated list and
  carried through the calls.
\<close>

lemma incremental_search_loop_intervals:
  assumes ret: "incremental_search_loop f ub increment_length lb number_of_roots intervals
      = Some r"
  shows "\<forall>lb0 j. lb = lb0 + real j * increment_length
      \<longrightarrow> (\<forall>iv\<in>set intervals. \<exists>k. lb0 + real k * increment_length \<le> ub
              \<and> scan_hit f increment_length (lb0 + real k * increment_length) iv)
      \<longrightarrow> (\<forall>iv\<in>set (snd r). \<exists>k. lb0 + real k * increment_length \<le> ub
              \<and> scan_hit f increment_length (lb0 + real k * increment_length) iv)"
proof (rule incremental_search_loop.raw_induct
    [where P = "\<lambda>f ub increment_length lb number_of_roots intervals r.
        \<forall>lb0 j. lb = lb0 + real j * increment_length
      \<longrightarrow> (\<forall>iv\<in>set intervals. \<exists>k. lb0 + real k * increment_length \<le> ub
              \<and> scan_hit f increment_length (lb0 + real k * increment_length) iv)
      \<longrightarrow> (\<forall>iv\<in>set (snd r). \<exists>k. lb0 + real k * increment_length \<le> ub
              \<and> scan_hit f increment_length (lb0 + real k * increment_length) iv)", OF _ ret])
  fix g :: "(real \<Rightarrow> real) \<Rightarrow> real \<Rightarrow> real \<Rightarrow> real \<Rightarrow> int \<Rightarrow> real list list
    \<Rightarrow> (int \<times> real list list) option"
  fix f ub increment_length lb number_of_roots intervals r
  assume IH: "\<And>f ub increment_length lb number_of_roots intervals r.
      g f ub increment_length lb number_of_roots intervals = Some r
        \<Longrightarrow> \<forall>lb0 j. lb = lb0 + real j * increment_length
      \<longrightarrow> (\<forall>iv\<in>set intervals. \<exists>k. lb0 + real k * increment_length \<le> ub
              \<and> scan_hit f increment_length (lb0 + real k * increment_length) iv)
      \<longrightarrow> (\<forall>iv\<in>set (snd r). \<exists>k. lb0 + real k * increment_length \<le> ub
              \<and> scan_hit f increment_length (lb0 + real k * increment_length) iv)"
  assume eq: "(if lb \<le> ub then
       let (number_of_roots, intervals) =
             (if f lb = 0
              then (number_of_roots + 1,
                    intervals @ [[lb - increment_length, lb + increment_length]])
              else (number_of_roots, intervals));
           (number_of_roots, intervals) =
             (if f lb * f (lb + increment_length) < 0
              then (number_of_roots + 1, intervals @ [[lb, lb + increment_length]])
              else (number_of_roots, intervals))
       in g f ub increment_length (lb + increment_length) number_of_roots intervals
     else Some (number_of_roots, intervals)) = Some r"
  show "\<forall>lb0 j. lb = lb0 + real j * increment_length
      \<longrightarrow> (\<forall>iv\<in>set intervals. \<exists>k. lb0 + real k * increment_length \<le> ub
              \<and> scan_hit f increment_length (lb0 + real k * increment_length) iv)
      \<longrightarrow> (\<forall>iv\<in>set (snd r). \<exists>k. lb0 + real k * increment_length \<le> ub
              \<and> scan_hit f increment_length (lb0 + real k * increment_length) iv)"
  proof (intro allI impI)
    fix lb0 and j :: nat
    assume pos: "lb = lb0 + real j * increment_length"
    assume inv: "\<forall>iv\<in>set intervals. \<exists>k. lb0 + real k * increment_length \<le> ub
              \<and> scan_hit f increment_length (lb0 + real k * increment_length) iv"
    show "\<forall>iv\<in>set (snd r). \<exists>k. lb0 + real k * increment_length \<le> ub
              \<and> scan_hit f increment_length (lb0 + real k * increment_length) iv"
    proof (cases "lb \<le> ub")
      case False
      with eq inv show ?thesis by auto
    next
      case True
      define new where "new =
          (if f lb = 0 then [[lb - increment_length, lb + increment_length]] else [])
          @ (if f lb * f (lb + increment_length) < 0 then [[lb, lb + increment_length]]
             else [])"
      from eq True obtain n' where
        call: "g f ub increment_length (lb + increment_length) n' (intervals @ new) = Some r"
        by (auto simp: Let_def new_def split: if_splits)
      have "scan_hit f increment_length lb iv" if "iv \<in> set new" for iv
        using that by (auto simp: new_def scan_hit_def split: if_splits)
      with True pos have "\<exists>k. lb0 + real k * increment_length \<le> ub
          \<and> scan_hit f increment_length (lb0 + real k * increment_length) iv"
        if "iv \<in> set new" for iv
        using that by blast
      with inv have inv': "\<forall>iv\<in>set (intervals @ new).
          \<exists>k. lb0 + real k * increment_length \<le> ub
            \<and> scan_hit f increment_length (lb0 + real k * increment_length) iv"
        by auto
      from pos have pos': "lb + increment_length = lb0 + real (Suc j) * increment_length"
        by (simp add: algebra_simps)
      from IH [OF call] pos' inv' show ?thesis by blast
    qed
  qed
qed

text \<open>
  Claim C2 (as stated): every interval \<open>[a, b]\<close> returned by \<^verbatim>\<open>incremental_search\<close>
  satisfies \<open>f a * f b \<le> 0\<close>. Scanning the demonstration's function from \<open>-2\<close> to \<open>6\<close>
  in steps of \<open>4\<close> hits the root \<open>2\<close> exactly; the interval recorded for it is
  \<open>[-2, 6]\<close>, and \<open>f (-2) * f 6 = 28 * 4 > 0\<close>.
\<close>

theorem C2_counterexample:
  "incremental_search main_f (-2) 6 4 = Some (1, [[-2, 6]]) \<and> \<not> main_f (-2) * main_f 6 \<le> 0"
  by (simp add: incremental_search_def incremental_search_loop_step main_f_def)

text \<open>
  Claim C2 (amended): every interval in the list returned by \<^verbatim>\<open>incremental_search\<close>
  belongs to a scanned position \<open>x = lb + k * increment_length \<le> ub\<close> and is either
  \<open>[x, x + increment_length]\<close> with \<open>f x * f (x + increment_length) < 0\<close> (a strict sign
  change between its endpoints) or \<open>[x - increment_length, x + increment_length]\<close> with
  \<open>f x = 0\<close> (an exact zero at its midpoint, whatever the signs at its endpoints).
\<close>

theorem C2_scanner_intervals:
  assumes "incremental_search f lb ub increment_length = Some (number_of_roots, intervals)"
  shows "\<forall>iv\<in>set intervals. \<exists>k. lb + real k * increment_length \<le> ub
           \<and> scan_hit f increment_length (lb + real k * increment_length) iv"
proof -
  from assms have "incremental_search_loop f ub increment_length lb 0 []
      = Some (number_of_roots, intervals)"
    by (simp add: incremental_search_def)
  from incremental_search_loop_intervals [OF this, rule_format, of lb 0]
  show ?thesis by simp
qed

text \<open>Witness for C2: the scan of the counterexample, whose interval is of the second kind.\<close>

theorem C2_scanner_intervals_witness:
  "incremental_search main_f (- 2) 6 4 = Some (1, [[- 2, 6]])
   \<and> (\<exists>k. - 2 + real k * 4 \<le> 6 \<and> scan_hit main_f 4 (- 2 + real k * 4) [- 2, 6])"
proof -
  have ret: "incremental_search main_f (- 2) 6 4 = Some (1, [[- 2, 6]])"
    by (simp add: incremental_search_def incremental_search_loop_step main_f_def)
  from ret C2_scanner_intervals [OF ret] show ?thesis by simp
qed


section \<open>Bisection: the number of passes\<close>

text \<open>
  The demonstration's two bisection calls, on the brackets that the scan returns: the
  roots \<open>2\<close> and \<open>5\<close> are midpoints and are returned exactly.
\<close>

lemma demonstration_bisection:
  "bisection main_f (8 / 5) (12 / 5) (1 / 1000) 100 = Some 2
   \<and> bisection main_f (24 / 5) (28 / 5) (1 / 1000) 100 = Some 5"
  by (simp add: bisection_def bisection_loop_step main_f_def power2_eq_square)



text \<open>
  Claim C4: bisection gives up after \<^verbatim>\<open>max_iterations\<close> iterations; at most
  \<^verbatim>\<open>max_iterations\<close> midpoints are examined. The code examines one more: with
  \<^verbatim>\<open>max_iterations = 1\<close> on the bracket \<open>[1, 5]\<close> of the demonstration's function it
  computes the midpoints \<open>3\<close> and \<open>2\<close>, leaves the loop with the counter at \<open>2\<close> and
  returns the second midpoint.
\<close>

theorem C4_bisection_extra_iteration:
  "bisection_loop main_f (1 / 1000) 1 1 5 0 = (2, Some 2)
   \<and> bisection main_f 1 5 (1 / 1000) 1 = Some 2"
  by (simp add: bisection_def bisection_loop_step main_f_def)



lemma lifted_square_positive: "0 < lifted_square x"
proof -
  have "0 \<le> x ^ 2" by simp
  then show ?thesis by (simp add: lifted_square_def add_nonneg_pos)
qed





section \<open>False position and Newton-Raphson: the update step and its zero divisor\<close>

text \<open>From a reached state the loop gives the result of the call.\<close>

lemma false_position_reaches_loop:
  "false_position_reaches f threshold max_iterations lb0 ub0 lb ub iteration \<Longrightarrow>
    false_position_loop f threshold max_iterations lb ub iteration =
      false_position f lb0 ub0 threshold max_iterations"
proof (induction rule: false_position_reaches.induct)
  case start
  show ?case by (simp add: false_position_def)
next
  case (pass lb ub iteration x_r lb' ub')
  from pass.hyps have "false_position_loop f threshold max_iterations lb ub iteration =
      false_position_loop f threshold max_iterations lb' ub' (iteration + 1)"
    by (auto simp: false_position_loop_step [of f threshold max_iterations lb ub iteration]
          split: if_splits)
  with pass.IH show ?case by simp
qed

lemma newton_raphson_reaches_loop:
  "newton_raphson_reaches f f_der threshold max_iterations x0 x iteration \<Longrightarrow>
    newton_raphson_loop f f_der threshold max_iterations x iteration =
      newton_raphson f f_der x0 threshold max_iterations"
proof (induction rule: newton_raphson_reaches.induct)
  case start
  show ?case by (simp add: newton_raphson_def)
next
  case (pass x iteration x')
  from pass.hyps have "newton_raphson_loop f f_der threshold max_iterations x iteration =
      newton_raphson_loop f f_der threshold max_iterations x' (iteration + 1)"
    by (auto simp: newton_raphson_loop_step [of f f_der threshold max_iterations x iteration])
  with pass.IH show ?case by simp
qed

text \<open>
  Both relations go beyond the initial state: on the demonstration's function one pass of
  false position takes the bracket \<open>[1, 3]\<close> to \<open>[1, 7/3]\<close>, and one pass of
  Newton-Raphson takes the guess \<open>0\<close> to \<open>10/7\<close>.
\<close>

lemma false_position_reaches_after_one_pass:
  "false_position_reaches main_f (1 / 1000) 100 1 3 1 (7 / 3) 1"
proof -
  have "false_position_reaches main_f (1 / 1000) 100 1 3 1 (7 / 3) (0 + 1)"
    by (rule false_position_reaches.pass
          [OF false_position_reaches.start, where x_r = "7 / 3"])
       (simp_all add: main_f_def power2_eq_square)
  then show ?thesis by simp
qed

lemma newton_raphson_reaches_after_one_pass:
  "newton_raphson_reaches main_f main_f_der (1 / 1000) 100 0 (10 / 7) 1"
proof -
  have "newton_raphson_reaches main_f main_f_der (1 / 1000) 100 0 (10 / 7) (0 + 1)"
    by (rule newton_raphson_reaches.pass [OF newton_raphson_reaches.start])
       (simp_all add: main_f_def main_f_der_def power2_eq_square)
  then show ?thesis by simp
qed

text \<open>
  Claim C5: at every iteration \<^verbatim>\<open>false_position\<close> computes the estimate
  \<open>x_r = ub - f ub * (lb - ub) / (f lb - f ub)\<close> from the current bracket, and whenever
  \<open>f lb = f ub\<close> at the current bracket the call fails with a division-by-zero error
  rather than returning a value or the not-found signal. An iteration is a pass that
  runs: a reached state with \<open>lb \<le> ub\<close>.
\<close>

theorem C5_false_position_step:
  assumes "false_position_reaches f threshold max_iterations lb0 ub0 lb ub iteration"
    and "lb \<le> ub"
  shows "false_position f lb0 ub0 threshold max_iterations =
    (if f lb = f ub then Inl ZeroDivisionError
     else let x_r = ub - f ub * (lb - ub) / (f lb - f ub)
          in if - threshold < f x_r \<and> f x_r < threshold then Inr (Some x_r)
             else if iteration + 1 > max_iterations then Inr None
             else if f lb * f x_r < 0
               then false_position_loop f threshold max_iterations lb x_r (iteration + 1)
             else if f ub * f x_r < 0
               then false_position_loop f threshold max_iterations x_r ub (iteration + 1)
             else false_position_loop f threshold max_iterations lb ub (iteration + 1))"
proof -
  from assms(1) have "false_position f lb0 ub0 threshold max_iterations =
      false_position_loop f threshold max_iterations lb ub iteration"
    by (simp add: false_position_reaches_loop)
  with assms(2) show ?thesis
    by (simp add: false_position_loop_step [of f threshold max_iterations lb ub iteration]
          Let_def)
qed

text \<open>
  Witness for C5: the demonstration's function takes the value \<open>-2\<close> at both \<open>3\<close> and
  \<open>4\<close>, so the call on the bracket \<open>[3, 4]\<close> fails in its first pass.
\<close>

theorem C5_false_position_step_witness:
  "false_position_reaches main_f (1 / 1000) 100 3 4 3 4 0 \<and> (3::real) \<le> 4
   \<and> main_f 3 = main_f 4
   \<and> false_position main_f 3 4 (1 / 1000) 100 = Inl ZeroDivisionError"
proof -
  have r: "false_position_reaches main_f (1 / 1000) 100 3 4 3 4 0"
    by (rule false_position_reaches.start)
  have le: "(3::real) \<le> 4" by simp
  from r le C5_false_position_step [OF r le] show ?thesis
    by (simp add: main_f_def)
qed

text \<open>
  Claim C6 (as stated): if \<^verbatim>\<open>f_der\<close> evaluates to \<open>0\<close> at any iterate reached by
  \<^verbatim>\<open>newton_raphson\<close>, the initial guess included, the call fails with a
  division-by-zero error instead of returning a value or not-found. Started at \<open>1/64\<close>
  on \<open>lifted_square\<close>, the first update step lands on the vertex \<open>0\<close>, where the
  derivative is \<open>0\<close>; the value there passes the convergence test, and the call returns
  this iterate without ever dividing by the derivative at it.
\<close>

theorem C6_counterexample:
  "newton_raphson lifted_square lifted_square_der (1 / 64) (1 / 1000) 100 = Inr (Some 0)
   \<and> lifted_square_der 0 = 0"
  by (simp add: newton_raphson_def newton_raphson_loop_step lifted_square_def
        lifted_square_der_def power2_eq_square)

text \<open>
  Claim C6 (amended): if \<^verbatim>\<open>f_der\<close> evaluates to \<open>0\<close> at the initial guess or at any
  later iterate from which \<^verbatim>\<open>newton_raphson\<close> starts a further update step (an
  iterate that neither passed the convergence test nor met the cap), the call fails with
  a division-by-zero error instead of returning a value or not-found. These are the
  iterates at which the code evaluates \<^verbatim>\<open>f_der\<close>.
\<close>

theorem C6_newton_raphson_zero_derivative:
  assumes "newton_raphson_reaches f f_der threshold max_iterations x0 x iteration"
    and "f_der x = 0"
  shows "newton_raphson f f_der x0 threshold max_iterations = Inl ZeroDivisionError"
proof -
  from assms(1) have "newton_raphson f f_der x0 threshold max_iterations =
      newton_raphson_loop f f_der threshold max_iterations x iteration"
    by (simp add: newton_raphson_reaches_loop)
  with assms(2) show ?thesis
    by (simp add: newton_raphson_loop_step [of f f_der threshold max_iterations x iteration])
qed

text \<open>
  Witness for C6: the derivative of the demonstration's function vanishes at the initial
  guess \<open>7/2\<close>.
\<close>

theorem C6_newton_raphson_zero_derivative_witness:
  "newton_raphson_reaches main_f main_f_der (1 / 1000) 100 (7 / 2) (7 / 2) 0
   \<and> main_f_der (7 / 2) = 0
   \<and> newton_raphson main_f main_f_der (7 / 2) (1 / 1000) 100 = Inl ZeroDivisionError"
proof -
  have r: "newton_raphson_reaches main_f main_f_der (1 / 1000) 100 (7 / 2) (7 / 2) 0"
    by (rule newton_raphson_reaches.start)
  have z: "main_f_der (7 / 2) = 0" by (simp add: main_f_der_def)
  from r z C6_newton_raphson_zero_derivative [OF r z] show ?thesis by simp
qed

text \<open>A returned value is the update of an iterate from which a pass started.\<close>

lemma newton_raphson_loop_returns_update:
  "newton_raphson_loop f f_der threshold max_iterations x iteration = Inr (Some r) \<Longrightarrow>
   newton_raphson_reaches f f_der threshold max_iterations x0 x iteration \<Longrightarrow>
   \<exists>y k. newton_raphson_reaches f f_der threshold max_iterations x0 y k
     \<and> f_der y \<noteq> 0 \<and> r = y - f y / f_der y"
proof (induction "nat (max_iterations - iteration)" arbitrary: x iteration rule: less_induct)
  case less
  show ?case
  proof (cases "f_der x = 0")
    case True
    with less.prems(1) show ?thesis
      by (simp add: newton_raphson_loop_step [of f f_der threshold max_iterations x iteration])
  next
    case nz: False
    show ?thesis
    proof (cases "- threshold < f (x - f x / f_der x) \<and> f (x - f x / f_der x) < threshold")
      case True
      with nz less.prems(1) have "r = x - f x / f_der x"
        by (simp add: newton_raphson_loop_step [of f f_der threshold max_iterations x iteration])
      with nz less.prems(2) show ?thesis by blast
    next
      case False
      with nz less.prems(1) have cap: "\<not> iteration + 1 > max_iterations"
        and call: "newton_raphson_loop f f_der threshold max_iterations
            (x - f x / f_der x) (iteration + 1) = Inr (Some r)"
        by (simp_all add: newton_raphson_loop_step [of f f_der threshold max_iterations x iteration]
              split: if_splits)
      from less.prems(2) nz False cap
      have "newton_raphson_reaches f f_der threshold max_iterations x0
          (x - f x / f_der x) (iteration + 1)"
        by (rule newton_raphson_reaches.pass [OF _ _ refl])
      with cap call less.hyps [of "iteration + 1" "x - f x / f_der x"] show ?thesis
        by simp
    qed
  qed
qed

text \<open>
  Claim C10 (as stated): \<^verbatim>\<open>newton_raphson\<close> never returns the initial guess \<open>x0\<close>
  itself. Started at the root \<open>2\<close> of the demonstration's function, the update step is
  \<open>2 - 0 / (-3) = 2\<close>, which passes the convergence test: the call returns \<open>x0\<close>.
\<close>

theorem C10_counterexample:
  "newton_raphson main_f main_f_der 2 (1 / 1000) 100 = Inr (Some 2)"
  by (simp add: newton_raphson_def newton_raphson_loop_step main_f_def main_f_der_def)

text \<open>
  Claim C10 (amended): \<^verbatim>\<open>newton_raphson\<close> tests convergence only after an update step.
  It always starts by dividing by \<open>f_der x0\<close>: if that is \<open>0\<close> the call fails with a
  division-by-zero error, even when \<open>\<bar>f x0\<bar> < threshold\<close>; otherwise the first value
  tested is \<open>x1 = x0 - f x0 / f_der x0\<close>, which is returned if \<open>\<bar>f x1\<bar> < threshold\<close>,
  and if not the call ends with not-found at the cap or goes on from \<open>x1\<close>. Every
  returned value is the update \<open>y - f y / f_der y\<close> of a reached iterate \<open>y\<close>; it is not
  \<open>x0\<close> unless such an update equals \<open>x0\<close>.
\<close>

theorem C10_newton_raphson_update_first:
  "newton_raphson f f_der x0 threshold max_iterations =
     (if f_der x0 = 0 then Inl ZeroDivisionError
      else if - threshold < f (x0 - f x0 / f_der x0) \<and> f (x0 - f x0 / f_der x0) < threshold
      then Inr (Some (x0 - f x0 / f_der x0))
      else if 1 > max_iterations then Inr None
      else newton_raphson_loop f f_der threshold max_iterations (x0 - f x0 / f_der x0) 1)
   \<and> (\<forall>r. newton_raphson f f_der x0 threshold max_iterations = Inr (Some r) \<longrightarrow>
        (\<exists>y k. newton_raphson_reaches f f_der threshold max_iterations x0 y k
          \<and> f_der y \<noteq> 0 \<and> r = y - f y / f_der y))"
proof (intro conjI allI impI)
  show "newton_raphson f f_der x0 threshold max_iterations =
     (if f_der x0 = 0 then Inl ZeroDivisionError
      else if - threshold < f (x0 - f x0 / f_der x0) \<and> f (x0 - f x0 / f_der x0) < threshold
      then Inr (Some (x0 - f x0 / f_der x0))
      else if 1 > max_iterations then Inr None
      else newton_raphson_loop f f_der threshold max_iterations (x0 - f x0 / f_der x0) 1)"
    by (simp add: newton_raphson_def
          newton_raphson_loop_step [of f f_der threshold max_iterations x0 0])
next
  fix r
  assume "newton_raphson f f_der x0 threshold max_iterations = Inr (Some r)"
  then have "newton_raphson_loop f f_der threshold max_iterations x0 0 = Inr (Some r)"
    by (simp add: newton_raphson_def)
  then show "\<exists>y k. newton_raphson_reaches f f_der threshold max_iterations x0 y k
      \<and> f_der y \<noteq> 0 \<and> r = y - f y / f_der y"
    by (rule newton_raphson_loop_returns_update) (rule newton_raphson_reaches.start)
qed

text \<open>
  Witness for C10: the call of the counterexample; the value returned is the update of
  the initial guess.
\<close>

theorem C10_newton_raphson_update_first_witness:
  "newton_raphson main_f main_f_der 2 (1 / 1000) 100 = Inr (Some 2)
   \<and> (\<exists>y k. newton_raphson_reaches main_f main_f_der (1 / 1000) 100 2 y k
          \<and> main_f_der y \<noteq> 0 \<and> 2 = y - main_f y / main_f_der y)"
proof -
  have ret: "newton_raphson main_f main_f_der 2 (1 / 1000) 100 = Inr (Some 2)"
    by (simp add: newton_raphson_def newton_raphson_loop_step main_f_def main_f_der_def)
  from ret C10_newton_raphson_update_first [of main_f main_f_der 2 "1 / 1000" 100]
  show ?thesis by blast
qed


section \<open>Determinism\<close>



end
